theory Spec2Isabelle
  imports Main
begin

section \<open>Entities, references and the game object\<close>

text \<open>
  \<^verbatim>\<open>src/js/Game.js\<close> keeps its sprites, pellets and black holes as JavaScript objects
  in arrays. Two arrays may hold the same object (a sprite sits in \<^verbatim>\<open>players\<close> and, once
  staged, in \<^verbatim>\<open>eatenSprites\<close> too), objects are mutated in place, and \<^verbatim>\<open>indexOf\<close>
  compares by identity. So an object is a reference (an address) into a store, an array is a
  list of references, and equality of references is identity.

  Numbers are modelled as integers. The fields \<^verbatim>\<open>size\<close> and \<^verbatim>\<open>value\<close> carry the suffix of
  their class, as both names are taken in HOL.
\<close>

type_synonym ref = nat

record sprite =
  size_s :: int
  actualSize :: int
  value_s :: int
  x_s :: int
  y_s :: int

record pellet =
  size_p :: int
  value_p :: int
  x_p :: int
  y_p :: int

record blackHole =
  size_b :: int
  power_b :: int
  lifeSpan :: int
  x_b :: int
  y_b :: int

text \<open>
  The fields of \<^verbatim>\<open>Game\<close> as its constructor sets them, the two flags \<^verbatim>\<open>started\<close> and
  \<^verbatim>\<open>paused\<close> (absent until \<^verbatim>\<open>start\<close> or \<^verbatim>\<open>pause\<close> writes them, and read only for their
  truth value: absent is \<open>False\<close>), and the store of the objects the arrays refer to.
  \<open>nextRef\<close> is the address the next \<^verbatim>\<open>new\<close> returns. The canvas size \<^verbatim>\<open>env\<close> only
  bounds random placement and is not kept.
\<close>

record game =
  players :: "ref list"
  pellets :: "ref list"
  blackHoles :: "ref list"
  eatenPellets :: "ref list"
  eatenSprites :: "ref list"
  deadBlackHoles :: "ref list"
  framesElapsed :: int
  started :: bool
  paused :: bool
  spriteObj :: "ref \<Rightarrow> sprite"
  pelletObj :: "ref \<Rightarrow> pellet"
  holeObj :: "ref \<Rightarrow> blackHole"
  nextRef :: ref

section \<open>Collaborators of the game\<close>

text \<open>
  \<^verbatim>\<open>GameData\<close> is not part of the sources: the game reads its tunable numbers and its
  four eligibility predicates from \<^verbatim>\<open>this.data\<close>. They are parameters here; a
  predicate is given the two objects, that is their fields as the store holds them at the
  call. A pellet's size and value are a number or a function
  (\<^verbatim>\<open>typeof size !== "function"\<close>); the size function takes no argument and may draw at
  random, so it is indexed by the round of the loop that calls it.
\<close>

datatype sizeSetting = SizeNumber int | SizeFunction "nat \<Rightarrow> int"

datatype valueSetting = ValueNumber int | ValueFunction "int \<Rightarrow> int"

record gameData =
  canSuckPellet :: "blackHole \<Rightarrow> pellet \<Rightarrow> bool"
  canSuckSprite :: "blackHole \<Rightarrow> sprite \<Rightarrow> bool"
  canEatPellet :: "sprite \<Rightarrow> pellet \<Rightarrow> bool"
  canEatSprite :: "sprite \<Rightarrow> sprite \<Rightarrow> bool"
  sprites_value :: "int \<Rightarrow> int"
  blackHoles_size :: int
  blackHoles_power :: int
  blackHoles_lifeSpan :: int
  spawnInterval :: int
  pellets_size :: sizeSetting
  pellets_value :: valueSetting
  newPelletsInterval :: int
  newQuantity :: int

text \<open>
  The classes \<^verbatim>\<open>Sprite\<close>, \<^verbatim>\<open>Pellet\<close> and \<^verbatim>\<open>BlackHole\<close> are not part of the sources
  either. Their methods are modelled from the specification below; the amounts the
  specification leaves open are parameters: the growth a pellet's value gives, the drain a
  hazard's power causes, where the input state steers a sprite, and what one tick does to a
  hazard's own state.
\<close>

record mechanics =
  growth :: "int \<Rightarrow> int"
  drain :: "int \<Rightarrow> int"
  steer :: "sprite \<Rightarrow> int \<times> int"
  ageing :: "blackHole \<Rightarrow> blackHole"

text \<open>
  The random draws of one tick: the place of a spawned black hole
  (\<^verbatim>\<open>round( random( this.env.width ) )\<close>, \<^verbatim>\<open>round( random( this.env.height ) )\<close>) and the
  place \<^verbatim>\<open>Pellet.place\<close> picks for the i-th new pellet.
\<close>

record chance =
  holePlace :: "int \<times> int"
  pelletPlace :: "nat \<Rightarrow> int \<times> int"

section \<open>Array primitives\<close>

text \<open>\<^verbatim>\<open>Array.prototype.indexOf\<close>: the first index holding the value, or \<open>-1\<close>.\<close>

fun indexOf :: "'a \<Rightarrow> 'a list \<Rightarrow> int" where
  "indexOf v [] = - 1"
| "indexOf v (w # ws) =
     (if w = v then 0 else if indexOf v ws < 0 then - 1 else indexOf v ws + 1)"

text \<open>
  \<^verbatim>\<open>Array.prototype.splice( start, 1 )\<close>: a negative \<^verbatim>\<open>start\<close> counts from the end (and
  stops at \<open>0\<close>), a \<^verbatim>\<open>start\<close> past the end is the end; one element is deleted there, if
  there is one.
\<close>

definition splice1 :: "int \<Rightarrow> 'a list \<Rightarrow> 'a list" where
  "splice1 start xs =
     (let len = int (length xs);
          k = (if start < 0 then max (len + start) 0 else min start len)
      in take (nat k) xs @ drop (nat k + 1) xs)"

section \<open>Methods of the entity classes\<close>

text \<open>
  Modelled from the spec: \<^verbatim>\<open>Sprite.eatPellet( pellet, eatenSet )\<close> is
  missing from the sources; it "increases actualSize by a function of the pellet's value;
  appends pellet to eatenSet".
\<close>

definition eatPellet :: "mechanics \<Rightarrow> ref \<Rightarrow> ref \<Rightarrow> game \<Rightarrow> game" where
  "eatPellet m s p g =
     g\<lparr>spriteObj := (spriteObj g)
          (s := (spriteObj g s)\<lparr>actualSize :=
                  actualSize (spriteObj g s) + growth m (value_p (pelletObj g p))\<rparr>),
       eatenPellets := eatenPellets g @ [p]\<rparr>"

text \<open>
  Modelled from the spec:
  \<^verbatim>\<open>Sprite.eatOtherSprite( otherSprite, eatenSet )\<close> is missing from the
  sources; "same pattern -- increases size by otherSprite.value [...], appends otherSprite to
  eatenSet".
\<close>

definition eatOtherSprite :: "ref \<Rightarrow> ref \<Rightarrow> game \<Rightarrow> game" where
  "eatOtherSprite s other g =
     g\<lparr>spriteObj := (spriteObj g)
          (s := (spriteObj g s)\<lparr>actualSize :=
                  actualSize (spriteObj g s) + value_s (spriteObj g other)\<rparr>),
       eatenSprites := eatenSprites g @ [other]\<rparr>"

text \<open>
  Modelled from the spec: \<^verbatim>\<open>Sprite.control()\<close> is missing from the
  sources; it "reads current input state [...] and updates position/velocity accordingly".
\<close>

definition control :: "mechanics \<Rightarrow> ref \<Rightarrow> game \<Rightarrow> game" where
  "control m s g =
     g\<lparr>spriteObj := (spriteObj g)
          (s := (spriteObj g s)\<lparr>x_s := fst (steer m (spriteObj g s)),
                                 y_s := snd (steer m (spriteObj g s))\<rparr>)\<rparr>"

text \<open>
  Modelled from the spec: \<^verbatim>\<open>BlackHole.suckPellet( pellet, eatenSet )\<close> is
  missing from the sources; it "marks a pellet for removal (stages into eatenSet)",
  unconditionally.
\<close>

definition suckPellet :: "ref \<Rightarrow> ref \<Rightarrow> game \<Rightarrow> game" where
  "suckPellet h p g = g\<lparr>eatenPellets := eatenPellets g @ [p]\<rparr>"

text \<open>
  Modelled from the spec: \<^verbatim>\<open>BlackHole.suckSprite( sprite )\<close> is missing
  from the sources; it "reduces sprite.actualSize by an amount derived from the hazard's power;
  does NOT immediately remove the sprite".
\<close>

definition suckSprite :: "mechanics \<Rightarrow> ref \<Rightarrow> ref \<Rightarrow> game \<Rightarrow> game" where
  "suckSprite m h s g =
     g\<lparr>spriteObj := (spriteObj g)
          (s := (spriteObj g s)\<lparr>actualSize :=
                  actualSize (spriteObj g s) - drain m (power_b (holeObj g h))\<rparr>)\<rparr>"

text \<open>
  Modelled from the spec: \<^verbatim>\<open>BlackHole.isDead( blackHole )\<close> is missing
  from the sources; a "pure predicate, true once lifeSpan is exhausted".
\<close>

definition isDead :: "blackHole \<Rightarrow> bool" where
  "isDead b = (lifeSpan b \<le> 0)"

text \<open>
  Modelled from the spec: \<^verbatim>\<open>BlackHole.display()\<close> is missing from the
  sources. It is the only call \<^verbatim>\<open>run\<close> makes on a hazard once per tick,
  so the hazard's own clock ("an internal countdown decremented once per tick the hazard is
  alive") advances here.
\<close>

definition displayBlackHole :: "mechanics \<Rightarrow> ref \<Rightarrow> game \<Rightarrow> game" where
  "displayBlackHole m h g = g\<lparr>holeObj := (holeObj g)(h := ageing m (holeObj g h))\<rparr>"

text \<open>
  \<^verbatim>\<open>Sprite.display()\<close> and \<^verbatim>\<open>Pellet.display()\<close> only draw: they change nothing of the
  model and are left out of \<open>run\<close>.
\<close>

section \<open>Setting the game up\<close>

definition newGame :: game where
  "newGame =
     \<lparr>players = [], pellets = [], blackHoles = [], eatenPellets = [], eatenSprites = [],
      deadBlackHoles = [], framesElapsed = 0, started = False, paused = False,
      spriteObj = (\<lambda>r. \<lparr>size_s = 0, actualSize = 0, value_s = 0, x_s = 0, y_s = 0\<rparr>),
      pelletObj = (\<lambda>r. \<lparr>size_p = 0, value_p = 0, x_p = 0, y_p = 0\<rparr>),
      holeObj = (\<lambda>r. \<lparr>size_b = 0, power_b = 0, lifeSpan = 0, x_b = 0, y_b = 0\<rparr>),
      nextRef = 0\<rparr>"

text \<open>
  \<^verbatim>\<open>addPlayer\<close> pushes the sprite it is given (choosing its colours, which only matter for
  drawing); it does not look whether the sprite is in \<^verbatim>\<open>players\<close> already.
\<close>

definition addPlayer :: "ref \<Rightarrow> game \<Rightarrow> game" where
  "addPlayer player g = g\<lparr>players := players g @ [player]\<rparr>"

definition placePellet :: "gameData \<Rightarrow> chance \<Rightarrow> nat \<Rightarrow> game \<Rightarrow> game" where
  "placePellet d ch i g =
     (let sz = (case pellets_size d of SizeNumber n \<Rightarrow> n | SizeFunction f \<Rightarrow> f i);
          v = (case pellets_value d of ValueNumber n \<Rightarrow> n | ValueFunction f \<Rightarrow> f sz);
          newPellet = nextRef g
      in g\<lparr>pellets := pellets g @ [newPellet],
           pelletObj := (pelletObj g)
             (newPellet := \<lparr>size_p = sz, value_p = v,
                             x_p = fst (pelletPlace ch i), y_p = snd (pelletPlace ch i)\<rparr>),
           nextRef := Suc newPellet\<rparr>)"

definition placePellets :: "gameData \<Rightarrow> chance \<Rightarrow> int \<Rightarrow> game \<Rightarrow> game" where
  "placePellets d ch qty g = fold (placePellet d ch) [0 ..< nat qty] g"

text \<open>
  \<^verbatim>\<open>a % b === 0\<close> on integers: false when \<^verbatim>\<open>b\<close> is \<open>0\<close> (the remainder is \<^verbatim>\<open>NaN\<close>),
  and otherwise true exactly when \<^verbatim>\<open>b\<close> divides \<^verbatim>\<open>a\<close>.
\<close>

definition remainderIsZero :: "int \<Rightarrow> int \<Rightarrow> bool" where
  "remainderIsZero a b = (b \<noteq> 0 \<and> a mod b = 0)"

definition placeNewPellets :: "gameData \<Rightarrow> chance \<Rightarrow> game \<Rightarrow> game" where
  "placeNewPellets d ch g =
     (if remainderIsZero (framesElapsed g) (newPelletsInterval d)
      then placePellets d ch (newQuantity d) g else g)"

text \<open>
  \<^verbatim>\<open>spawnBlackHole\<close> tests \<^verbatim>\<open>frameCount\<close>, the global frame counter of the drawing
  library, not \<^verbatim>\<open>this.framesElapsed\<close> as \<^verbatim>\<open>placeNewPellets\<close> does: the counter is an
  argument of its own.
\<close>

definition spawnBlackHole :: "gameData \<Rightarrow> int \<Rightarrow> chance \<Rightarrow> int \<Rightarrow> game \<Rightarrow> game" where
  "spawnBlackHole d frameCount ch interval g =
     (if remainderIsZero frameCount interval then
        (let newBlackHole = nextRef g
         in g\<lparr>blackHoles := blackHoles g @ [newBlackHole],
              holeObj := (holeObj g)
                (newBlackHole := \<lparr>size_b = blackHoles_size d, power_b = blackHoles_power d,
                                   lifeSpan = blackHoles_lifeSpan d,
                                   x_b = fst (holePlace ch), y_b = snd (holePlace ch)\<rparr>),
              nextRef := Suc newBlackHole\<rparr>)
      else g)"

section \<open>The life cycle\<close>

definition warning :: string where
  "warning = ''Please add players and pellets before starting the game.''"

text \<open>
  \<^verbatim>\<open>start\<close> returns the game and what it wrote with \<^verbatim>\<open>console.warn\<close>. The arrays
  \<^verbatim>\<open>players\<close> and \<^verbatim>\<open>pellets\<close> exist from the constructor on, so of
  \<^verbatim>\<open>this.players && this.players.length > 0\<close> the length test decides.
\<close>

definition start :: "game \<Rightarrow> game \<times> string list" where
  "start g =
     (if length (players g) > 0 \<and> length (pellets g) > 0
      then (g\<lparr>started := True, paused := False\<rparr>, [])
      else (g, [warning]))"

definition update :: "int \<Rightarrow> game \<Rightarrow> game" where
  "update frameCount g = g\<lparr>framesElapsed := frameCount\<rparr>"

definition pause :: "game \<Rightarrow> game" where
  "pause g = g\<lparr>paused := True\<rparr>"

definition continue :: "game \<Rightarrow> game" where
  "continue g = g\<lparr>paused := False\<rparr>"

section \<open>One tick\<close>

subsection \<open>Black holes\<close>

definition suckPelletStep :: "gameData \<Rightarrow> ref \<Rightarrow> ref \<Rightarrow> game \<Rightarrow> game" where
  "suckPelletStep d h p g =
     (if canSuckPellet d (holeObj g h) (pelletObj g p) then suckPellet h p g else g)"

definition suckSpriteStep :: "gameData \<Rightarrow> mechanics \<Rightarrow> ref \<Rightarrow> ref \<Rightarrow> game \<Rightarrow> game" where
  "suckSpriteStep d m h s g =
     (if canSuckSprite d (holeObj g h) (spriteObj g s) then
        (let g' = suckSprite m h s g
         in if actualSize (spriteObj g' s) \<le> 0
            then g'\<lparr>eatenSprites := eatenSprites g' @ [s]\<rparr> else g')
      else g)"

definition blackHoleStep :: "gameData \<Rightarrow> mechanics \<Rightarrow> ref \<Rightarrow> game \<Rightarrow> game" where
  "blackHoleStep d m h g =
     (let g1 = displayBlackHole m h g;
          g2 = fold (suckPelletStep d h) (pellets g1) g1;
          g3 = fold (suckSpriteStep d m h) (players g2) g2
      in if isDead (holeObj g3 h)
         then g3\<lparr>deadBlackHoles := deadBlackHoles g3 @ [h]\<rparr> else g3)"

definition controlBlackHoles :: "gameData \<Rightarrow> mechanics \<Rightarrow> game \<Rightarrow> game" where
  "controlBlackHoles d m g = fold (blackHoleStep d m) (blackHoles g) g"

text \<open>
  The flush of the dead black holes looks each one up in \<^verbatim>\<open>this.deadBlackHoles\<close> and
  deletes at that index of \<^verbatim>\<open>this.blackHoles\<close>.
\<close>

definition removeDeadBlackHoles :: "game \<Rightarrow> game" where
  "removeDeadBlackHoles g =
     g\<lparr>blackHoles :=
          fold (\<lambda>h live. splice1 (indexOf h (deadBlackHoles g)) live)
            (deadBlackHoles g) (blackHoles g),
       deadBlackHoles := []\<rparr>"

subsection \<open>Flushing a staging array\<close>

text \<open>
  \<^verbatim>\<open>staged.forEach( ( e ) => { live.splice( live.indexOf( e ), 1 ); } )\<close>, the loop that
  empties \<^verbatim>\<open>eatenPellets\<close> and \<^verbatim>\<open>eatenSprites\<close>.
\<close>

definition spliceOut :: "'a \<Rightarrow> 'a list \<Rightarrow> 'a list" where
  "spliceOut e live = splice1 (indexOf e live) live"

definition removeEatenPellets :: "game \<Rightarrow> game" where
  "removeEatenPellets g =
     g\<lparr>pellets := fold spliceOut (eatenPellets g) (pellets g), eatenPellets := []\<rparr>"

definition removeEatenSprites :: "game \<Rightarrow> game" where
  "removeEatenSprites g =
     g\<lparr>players := fold spliceOut (eatenSprites g) (players g), eatenSprites := []\<rparr>"

subsection \<open>Sprites\<close>

definition controlPlayers :: "mechanics \<Rightarrow> game \<Rightarrow> game" where
  "controlPlayers m g = fold (control m) (players g) g"

definition eatPelletStep :: "gameData \<Rightarrow> mechanics \<Rightarrow> ref \<Rightarrow> ref \<Rightarrow> game \<Rightarrow> game" where
  "eatPelletStep d m s p g =
     (if canEatPellet d (spriteObj g s) (pelletObj g p) then eatPellet m s p g else g)"

definition spritesEatPellets :: "gameData \<Rightarrow> mechanics \<Rightarrow> game \<Rightarrow> game" where
  "spritesEatPellets d m g =
     fold (\<lambda>s g'. fold (eatPelletStep d m s) (pellets g') g') (players g) g"

text \<open>
  The victim's \<^verbatim>\<open>value\<close> is written from its field \<^verbatim>\<open>size\<close>
  (\<^verbatim>\<open>otherPlayer.value = this.data.sprites.value( otherPlayer.size )\<close>).
\<close>

definition setValue :: "gameData \<Rightarrow> ref \<Rightarrow> game \<Rightarrow> game" where
  "setValue d victim g =
     g\<lparr>spriteObj := (spriteObj g)
          (victim := (spriteObj g victim)\<lparr>value_s :=
                       sprites_value d (size_s (spriteObj g victim))\<rparr>)\<rparr>"

text \<open>
  A meal \<open>(a, b)\<close> records one call \<^verbatim>\<open>a.eatOtherSprite( b, ... )\<close>. The scan of the pairs
  returns the game together with the meals of the tick, in order.
\<close>

type_synonym meal = "ref \<times> ref"

fun pairStep :: "gameData \<Rightarrow> ref \<Rightarrow> ref \<Rightarrow> game \<times> meal list \<Rightarrow> game \<times> meal list" where
  "pairStep d player otherPlayer (g, meals) =
     (if canEatSprite d (spriteObj g player) (spriteObj g otherPlayer)
      then (eatOtherSprite player otherPlayer (setValue d otherPlayer g),
            meals @ [(player, otherPlayer)])
      else if canEatSprite d (spriteObj g otherPlayer) (spriteObj g player)
      then (eatOtherSprite otherPlayer player (setValue d player g),
            meals @ [(otherPlayer, player)])
      else (g, meals))"

text \<open>
  \<^verbatim>\<open>this.players.forEach( ( player, i ) => { this.players.slice( i + 1 ).forEach( ... ) } )\<close>:
  each player against the players behind it.
\<close>

fun eatPairs :: "gameData \<Rightarrow> ref list \<Rightarrow> game \<times> meal list \<Rightarrow> game \<times> meal list" where
  "eatPairs d [] gm = gm"
| "eatPairs d (player # behind) gm = eatPairs d behind (fold (pairStep d player) behind gm)"

text \<open>
  The pairs of positions \<open>i < j\<close> of a list, first by \<open>i\<close> and then by \<open>j\<close>: what
  "index \<open>i\<close> against the indices \<open>> i\<close>" visits.
\<close>

fun pairsOf :: "'a list \<Rightarrow> ('a \<times> 'a) list" where
  "pairsOf [] = []"
| "pairsOf (a # behind) = map (Pair a) behind @ pairsOf behind"

definition spritesEatSprites :: "gameData \<Rightarrow> game \<Rightarrow> game" where
  "spritesEatSprites d g = fst (eatPairs d (players g) (g, []))"

definition mealsOfTick :: "gameData \<Rightarrow> game \<Rightarrow> meal list" where
  "mealsOfTick d g = snd (eatPairs d (players g) (g, []))"

subsection \<open>run\<close>

definition run :: "gameData \<Rightarrow> mechanics \<Rightarrow> int \<Rightarrow> chance \<Rightarrow> game \<Rightarrow> game" where
  "run d m frameCount ch g =
     (if \<not> started g \<or> paused g then g
      else
        (let g1 = spawnBlackHole d frameCount ch (spawnInterval d) g;
             g2 = controlBlackHoles d m g1;
             g3 = removeDeadBlackHoles g2;
             g4 = removeEatenPellets g3;
             g5 = controlPlayers m g4;
             g6 = spritesEatPellets d m g5;
             g7 = removeEatenPellets g6;
             g8 = spritesEatSprites d g7;
             g9 = removeEatenSprites g8
         in placeNewPellets d ch g9))"

subsection \<open>Stations of a running tick\<close>

text \<open>
  The game of a running tick when the scan of the black holes is over (before the first
  flush), and when it reaches the step in which sprites eat sprites.
\<close>

definition afterBlackHoles :: "gameData \<Rightarrow> mechanics \<Rightarrow> int \<Rightarrow> chance \<Rightarrow> game \<Rightarrow> game" where
  "afterBlackHoles d m frameCount ch g =
     controlBlackHoles d m (spawnBlackHole d frameCount ch (spawnInterval d) g)"

definition beforeSpritesEatSprites ::
    "gameData \<Rightarrow> mechanics \<Rightarrow> int \<Rightarrow> chance \<Rightarrow> game \<Rightarrow> game" where
  "beforeSpritesEatSprites d m frameCount ch g =
     removeEatenPellets (spritesEatPellets d m (controlPlayers m
       (removeEatenPellets (removeDeadBlackHoles (afterBlackHoles d m frameCount ch g)))))"


text \<open>How many of the meals are between \<open>a\<close> and \<open>b\<close>, in either direction.\<close>

definition mealsBetween :: "ref \<Rightarrow> ref \<Rightarrow> meal list \<Rightarrow> nat" where
  "mealsBetween a b meals = length (filter (\<lambda>e. e = (a, b) \<or> e = (b, a)) meals)"

section \<open>Concrete games\<close>

text \<open>
  A configuration, mechanics and games to run the definitions on. Entities interact when
  they stand on the same spot; a sprite eats a sprite of smaller \<^verbatim>\<open>size\<close>; a sprite's value
  is its size; a pellet's value is what the eater grows by; a hazard drains its power and
  loses one unit of life span per tick.
\<close>

definition demoData :: gameData where
  "demoData =
     \<lparr>canSuckPellet = (\<lambda>b p. x_p p = x_b b \<and> y_p p = y_b b),
      canSuckSprite = (\<lambda>b s. x_s s = x_b b \<and> y_s s = y_b b),
      canEatPellet = (\<lambda>s p. x_p p = x_s s \<and> y_p p = y_s s),
      canEatSprite = (\<lambda>s t. x_s t = x_s s \<and> y_s t = y_s s \<and> size_s t < size_s s),
      sprites_value = (\<lambda>n. n),
      blackHoles_size = 10, blackHoles_power = 100, blackHoles_lifeSpan = 1,
      spawnInterval = 2,
      pellets_size = SizeNumber 5, pellets_value = ValueNumber 1,
      newPelletsInterval = 0, newQuantity = 1\<rparr>"

text \<open>The same configuration with sprites that eat whatever they meet.\<close>

definition greedyData :: gameData where
  "greedyData = demoData\<lparr>canEatSprite := (\<lambda>s t. True)\<rparr>"

definition demoMechanics :: mechanics where
  "demoMechanics =
     \<lparr>growth = (\<lambda>v. v), drain = (\<lambda>p. p), steer = (\<lambda>s. (x_s s, y_s s)),
      ageing = (\<lambda>b. b\<lparr>lifeSpan := lifeSpan b - 1\<rparr>)\<rparr>"

text \<open>The same mechanics with a drain that is never negative.\<close>

definition steadyMechanics :: mechanics where
  "steadyMechanics = demoMechanics\<lparr>drain := (\<lambda>p. max 0 p)\<rparr>"

definition demoChance :: chance where
  "demoChance = \<lparr>holePlace = (7, 7), pelletPlace = (\<lambda>i. (int i, 3))\<rparr>"

definition spriteAt :: "int \<Rightarrow> int \<Rightarrow> int \<Rightarrow> int \<Rightarrow> sprite" where
  "spriteAt sz actual px py = \<lparr>size_s = sz, actualSize = actual, value_s = 0, x_s = px, y_s = py\<rparr>"

definition pelletAt :: "int \<Rightarrow> int \<Rightarrow> pellet" where
  "pelletAt px py = \<lparr>size_p = 5, value_p = 1, x_p = px, y_p = py\<rparr>"

definition holeAt :: "int \<Rightarrow> int \<Rightarrow> int \<Rightarrow> int \<Rightarrow> blackHole" where
  "holeAt pw life px py = \<lparr>size_b = 10, power_b = pw, lifeSpan = life, x_b = px, y_b = py\<rparr>"

text \<open>One player standing on one pellet, not started yet.\<close>

definition readyGame :: game where
  "readyGame =
     newGame\<lparr>players := [0], pellets := [0],
       spriteObj := (spriteObj newGame)(0 := spriteAt 20 20 0 0),
       pelletObj := (pelletObj newGame)(0 := pelletAt 0 0),
       nextRef := 1\<rparr>"

text \<open>Two players of the same size standing on pellet \<open>0\<close>; pellets \<open>1\<close> and \<open>2\<close> lie elsewhere.\<close>

definition feastGame :: game where
  "feastGame =
     newGame\<lparr>players := [0, 1], pellets := [0, 1, 2], started := True,
       spriteObj := (spriteObj newGame)(0 := spriteAt 20 20 0 0, 1 := spriteAt 20 20 0 0),
       pelletObj := (pelletObj newGame)(0 := pelletAt 0 0, 1 := pelletAt 5 5, 2 := pelletAt 6 6),
       nextRef := 3\<rparr>"

text \<open>
  Player \<open>0\<close> of size 30 on the same spot as player \<open>1\<close>, whose \<^verbatim>\<open>size\<close> is 20 and whose
  \<^verbatim>\<open>actualSize\<close> is 50; a pellet lies elsewhere.
\<close>

definition duelGame :: game where
  "duelGame =
     newGame\<lparr>players := [0, 1], pellets := [0], started := True,
       spriteObj := (spriteObj newGame)(0 := spriteAt 30 30 0 0, 1 := spriteAt 20 50 0 0),
       pelletObj := (pelletObj newGame)(0 := pelletAt 5 5),
       nextRef := 2\<rparr>"

text \<open>
  Two black holes away from everything else: hole \<open>0\<close> has five ticks left, hole \<open>1\<close> has
  one.
\<close>

definition hazardGame :: game where
  "hazardGame =
     newGame\<lparr>players := [0], pellets := [0], blackHoles := [0, 1], started := True,
       spriteObj := (spriteObj newGame)(0 := spriteAt 20 20 0 0),
       pelletObj := (pelletObj newGame)(0 := pelletAt 5 5),
       holeObj := (holeObj newGame)(0 := holeAt 100 5 9 9, 1 := holeAt 100 1 8 8),
       nextRef := 2\<rparr>"

text \<open>
  A black hole of power 100 with one tick left, on the spot of player \<open>0\<close>, of
  \<^verbatim>\<open>actualSize\<close> 50, and of pellet \<open>1\<close>; player \<open>1\<close> stands on pellet \<open>0\<close>
  elsewhere.
\<close>

definition drainGame :: game where
  "drainGame =
     newGame\<lparr>players := [0, 1], pellets := [0, 1], blackHoles := [0], started := True,
       spriteObj := (spriteObj newGame)(0 := spriteAt 50 50 9 9, 1 := spriteAt 20 20 5 5),
       pelletObj := (pelletObj newGame)(0 := pelletAt 5 5, 1 := pelletAt 9 9),
       holeObj := (holeObj newGame)(0 := holeAt 100 1 9 9),
       nextRef := 2\<rparr>"

text \<open>Three players on one spot.\<close>

definition trioGame :: game where
  "trioGame =
     newGame\<lparr>players := [0, 1, 2], pellets := [0], started := True,
       spriteObj := (spriteObj newGame)
         (0 := spriteAt 30 30 0 0, 1 := spriteAt 20 20 0 0, 2 := spriteAt 10 10 0 0),
       pelletObj := (pelletObj newGame)(0 := pelletAt 5 5),
       nextRef := 3\<rparr>"

text \<open>
  A black hole on the spot of player \<open>0\<close>; players \<open>1\<close> (size 30) and \<open>2\<close> (size 20)
  share another spot; player \<open>3\<close> stands alone.
\<close>

definition mixedGame :: game where
  "mixedGame =
     newGame\<lparr>players := [0, 1, 2, 3], pellets := [0], blackHoles := [0], started := True,
       spriteObj := (spriteObj newGame)
         (0 := spriteAt 50 50 9 9, 1 := spriteAt 30 30 5 5, 2 := spriteAt 20 20 5 5,
          3 := spriteAt 20 20 0 0),
       pelletObj := (pelletObj newGame)(0 := pelletAt 7 7),
       holeObj := (holeObj newGame)(0 := holeAt 100 1 9 9),
       nextRef := 4\<rparr>"

text \<open>\<open>duelGame\<close> after its player \<open>0\<close> has been added once more.\<close>

definition twiceGame :: game where
  "twiceGame = addPlayer 0 duelGame"

text \<open>A started game whose own counter stands at 4.\<close>

definition countingGame :: game where
  "countingGame = update 4 (readyGame\<lparr>started := True\<rparr>)"

section \<open>Folds over an array\<close>

lemma fold_keeps: "(\<And>x s. f (step x s) = f s) \<Longrightarrow> f (fold step xs s) = f s"
  by (induction xs arbitrary: s) simp_all




text \<open>The equations that evaluate a tick on a concrete game.\<close>

lemmas demo_defs =
  demoData_def greedyData_def demoMechanics_def demoChance_def spriteAt_def pelletAt_def
  holeAt_def newGame_def readyGame_def feastGame_def duelGame_def hazardGame_def
  drainGame_def trioGame_def countingGame_def steadyMechanics_def mixedGame_def twiceGame_def
  addPlayer_def

lemmas tick_defs =
  run_def afterBlackHoles_def beforeSpritesEatSprites_def spawnBlackHole_def
  remainderIsZero_def controlBlackHoles_def blackHoleStep_def displayBlackHole_def
  suckPelletStep_def suckSpriteStep_def suckPellet_def suckSprite_def isDead_def
  removeDeadBlackHoles_def removeEatenPellets_def removeEatenSprites_def spliceOut_def
  splice1_def controlPlayers_def control_def spritesEatPellets_def eatPelletStep_def
  eatPellet_def spritesEatSprites_def mealsOfTick_def setValue_def eatOtherSprite_def
  placeNewPellets_def placePellets_def placePellet_def update_def Let_def

section \<open>indexOf and splice\<close>














section \<open>The life cycle: start, pause, continue\<close>

text \<open>
  C7. \<^verbatim>\<open>start\<close> makes the game run exactly when it has a player and a pellet: then it
  sets \<^verbatim>\<open>started\<close> and clears \<^verbatim>\<open>paused\<close>, writing no warning; with no player or no
  pellet it writes the warning and returns the game as it was, so a later call, after entities
  have been added, can still start it.
\<close>

theorem start_needs_players_and_pellets:
  "(players g \<noteq> [] \<and> pellets g \<noteq> [] \<longrightarrow>
      start g = (g\<lparr>started := True, paused := False\<rparr>, []))
   \<and> (players g = [] \<or> pellets g = [] \<longrightarrow> start g = (g, [warning]))"
  by (auto simp: start_def)

theorem start_needs_players_and_pellets_witness:
  "players newGame = [] \<and> start newGame = (newGame, [warning])
   \<and> players (placePellets demoData demoChance 1 (addPlayer 0 (fst (start newGame)))) = [0]
   \<and> pellets (placePellets demoData demoChance 1 (addPlayer 0 (fst (start newGame)))) = [0]
   \<and> started (fst (start
        (placePellets demoData demoChance 1 (addPlayer 0 (fst (start newGame))))))
   \<and> players readyGame \<noteq> [] \<and> pellets readyGame \<noteq> [] \<and> \<not> started readyGame
   \<and> start readyGame = (readyGame\<lparr>started := True, paused := False\<rparr>, [])"
proof -
  have bare: "players newGame = []" by (simp add: newGame_def)
  have retry:
    "players (placePellets demoData demoChance 1 (addPlayer 0 (fst (start newGame)))) = [0]"
    "pellets (placePellets demoData demoChance 1 (addPlayer 0 (fst (start newGame)))) = [0]"
    by (simp_all add: start_def newGame_def addPlayer_def placePellets_def placePellet_def
          Let_def)
  have ready: "players readyGame \<noteq> []" "pellets readyGame \<noteq> []" "\<not> started readyGame"
    by (simp_all add: readyGame_def newGame_def)
  from start_needs_players_and_pellets [of newGame]
    start_needs_players_and_pellets
      [of "placePellets demoData demoChance 1 (addPlayer 0 (fst (start newGame)))"]
    start_needs_players_and_pellets [of readyGame]
    bare retry ready
  show ?thesis by simp
qed

text \<open>
  C10. On a game with a player and a pellet \<^verbatim>\<open>start\<close> always clears \<^verbatim>\<open>paused\<close>; on
  such a game that was started and then paused it returns the game \<^verbatim>\<open>continue\<close> returns.
\<close>

theorem start_resumes_paused_game:
  "players g \<noteq> [] \<Longrightarrow> pellets g \<noteq> [] \<Longrightarrow>
     \<not> paused (fst (start g))
     \<and> (started g \<and> paused g \<longrightarrow> fst (start g) = continue g)"
  by (simp add: start_def continue_def)

theorem start_resumes_paused_game_witness:
  "players (pause (fst (start readyGame))) \<noteq> []
   \<and> pellets (pause (fst (start readyGame))) \<noteq> []
   \<and> started (pause (fst (start readyGame)))
   \<and> paused (pause (fst (start readyGame)))
   \<and> \<not> paused (fst (start (pause (fst (start readyGame)))))
   \<and> fst (start (pause (fst (start readyGame)))) = continue (pause (fst (start readyGame)))"
proof -
  have ready: "players (pause (fst (start readyGame))) \<noteq> []"
    "pellets (pause (fst (start readyGame))) \<noteq> []"
    "started (pause (fst (start readyGame)))" "paused (pause (fst (start readyGame)))"
    by (simp_all add: start_def pause_def readyGame_def newGame_def)
  with start_resumes_paused_game [OF ready(1) ready(2)] show ?thesis by blast
qed

section \<open>run outside the running state\<close>

text \<open>
  C8. When the game has not been started, or is paused, \<^verbatim>\<open>run\<close> returns the game it was
  given: every field, the three staging arrays and \<^verbatim>\<open>framesElapsed\<close> included, is unchanged.
\<close>

theorem run_idle_when_not_running:
  "\<not> started g \<or> paused g \<Longrightarrow> run d m frameCount ch g = g"
  by (simp add: run_def)

theorem run_idle_when_not_running_witness:
  "\<not> started readyGame
   \<and> run demoData demoMechanics 0 demoChance readyGame = readyGame
   \<and> paused (pause feastGame)
   \<and> run demoData demoMechanics 0 demoChance (pause feastGame) = pause feastGame"
proof -
  have idle: "\<not> started readyGame \<or> paused readyGame"
    by (simp add: readyGame_def newGame_def)
  have halted: "\<not> started (pause feastGame) \<or> paused (pause feastGame)"
    by (simp add: pause_def)
  from run_idle_when_not_running [OF idle] run_idle_when_not_running [OF halted]
  show ?thesis by (simp add: readyGame_def newGame_def pause_def)
qed

section \<open>What each phase of a tick leaves alone\<close>

lemma spawnBlackHole_keeps:
  "players (spawnBlackHole d frameCount ch i g) = players g"
  "pellets (spawnBlackHole d frameCount ch i g) = pellets g"
  "eatenPellets (spawnBlackHole d frameCount ch i g) = eatenPellets g"
  "eatenSprites (spawnBlackHole d frameCount ch i g) = eatenSprites g"
  "deadBlackHoles (spawnBlackHole d frameCount ch i g) = deadBlackHoles g"
  by (simp_all add: spawnBlackHole_def Let_def)

lemma suckPelletStep_keeps:
  "players (suckPelletStep d h p g) = players g"
  "pellets (suckPelletStep d h p g) = pellets g"
  "blackHoles (suckPelletStep d h p g) = blackHoles g"
  "eatenSprites (suckPelletStep d h p g) = eatenSprites g"
  by (simp_all add: suckPelletStep_def suckPellet_def)

lemma suckSpriteStep_keeps:
  "players (suckSpriteStep d m h s g) = players g"
  "pellets (suckSpriteStep d m h s g) = pellets g"
  "blackHoles (suckSpriteStep d m h s g) = blackHoles g"
  "eatenPellets (suckSpriteStep d m h s g) = eatenPellets g"
  by (simp_all add: suckSpriteStep_def suckSprite_def Let_def)

lemma blackHoleStep_keeps:
  "players (blackHoleStep d m h g) = players g"
  "pellets (blackHoleStep d m h g) = pellets g"
  "blackHoles (blackHoleStep d m h g) = blackHoles g"
  by (simp_all add: blackHoleStep_def Let_def displayBlackHole_def fold_keeps
      suckSpriteStep_keeps suckPelletStep_keeps)

lemma controlBlackHoles_keeps:
  "players (controlBlackHoles d m g) = players g"
  "pellets (controlBlackHoles d m g) = pellets g"
  "blackHoles (controlBlackHoles d m g) = blackHoles g"
  by (simp_all add: controlBlackHoles_def fold_keeps blackHoleStep_keeps)

lemma removeDeadBlackHoles_keeps:
  "players (removeDeadBlackHoles g) = players g"
  "pellets (removeDeadBlackHoles g) = pellets g"
  "eatenPellets (removeDeadBlackHoles g) = eatenPellets g"
  "eatenSprites (removeDeadBlackHoles g) = eatenSprites g"
  "deadBlackHoles (removeDeadBlackHoles g) = []"
  by (simp_all add: removeDeadBlackHoles_def)

lemma removeEatenPellets_keeps:
  "players (removeEatenPellets g) = players g"
  "blackHoles (removeEatenPellets g) = blackHoles g"
  "eatenSprites (removeEatenPellets g) = eatenSprites g"
  "deadBlackHoles (removeEatenPellets g) = deadBlackHoles g"
  "eatenPellets (removeEatenPellets g) = []"
  by (simp_all add: removeEatenPellets_def)

lemma removeEatenSprites_keeps:
  "pellets (removeEatenSprites g) = pellets g"
  "blackHoles (removeEatenSprites g) = blackHoles g"
  "eatenPellets (removeEatenSprites g) = eatenPellets g"
  "deadBlackHoles (removeEatenSprites g) = deadBlackHoles g"
  "eatenSprites (removeEatenSprites g) = []"
  by (simp_all add: removeEatenSprites_def)

lemma control_keeps:
  "players (control m s g) = players g"
  "pellets (control m s g) = pellets g"
  "blackHoles (control m s g) = blackHoles g"
  "eatenPellets (control m s g) = eatenPellets g"
  "eatenSprites (control m s g) = eatenSprites g"
  "deadBlackHoles (control m s g) = deadBlackHoles g"
  by (simp_all add: control_def)

lemma controlPlayers_keeps:
  "players (controlPlayers m g) = players g"
  "pellets (controlPlayers m g) = pellets g"
  "blackHoles (controlPlayers m g) = blackHoles g"
  "eatenPellets (controlPlayers m g) = eatenPellets g"
  "eatenSprites (controlPlayers m g) = eatenSprites g"
  "deadBlackHoles (controlPlayers m g) = deadBlackHoles g"
  by (simp_all add: controlPlayers_def fold_keeps control_keeps)

lemma eatPelletStep_keeps:
  "players (eatPelletStep d m s p g) = players g"
  "pellets (eatPelletStep d m s p g) = pellets g"
  "blackHoles (eatPelletStep d m s p g) = blackHoles g"
  "eatenSprites (eatPelletStep d m s p g) = eatenSprites g"
  "deadBlackHoles (eatPelletStep d m s p g) = deadBlackHoles g"
  by (simp_all add: eatPelletStep_def eatPellet_def)

lemma spritesEatPellets_keeps:
  "players (spritesEatPellets d m g) = players g"
  "pellets (spritesEatPellets d m g) = pellets g"
  "blackHoles (spritesEatPellets d m g) = blackHoles g"
  "eatenSprites (spritesEatPellets d m g) = eatenSprites g"
  "deadBlackHoles (spritesEatPellets d m g) = deadBlackHoles g"
  by (simp_all add: spritesEatPellets_def fold_keeps eatPelletStep_keeps)

lemma pairStep_keeps:
  "players (fst (pairStep d a b gm)) = players (fst gm)"
  "pellets (fst (pairStep d a b gm)) = pellets (fst gm)"
  "blackHoles (fst (pairStep d a b gm)) = blackHoles (fst gm)"
  "eatenPellets (fst (pairStep d a b gm)) = eatenPellets (fst gm)"
  "deadBlackHoles (fst (pairStep d a b gm)) = deadBlackHoles (fst gm)"
  by (cases gm; simp add: eatOtherSprite_def setValue_def)+


lemma eatPairs_keeps:
  "players (fst (eatPairs d ps gm)) = players (fst gm)"
  "pellets (fst (eatPairs d ps gm)) = pellets (fst gm)"
  "blackHoles (fst (eatPairs d ps gm)) = blackHoles (fst gm)"
  "eatenPellets (fst (eatPairs d ps gm)) = eatenPellets (fst gm)"
  "deadBlackHoles (fst (eatPairs d ps gm)) = deadBlackHoles (fst gm)"
  by (induction d ps gm rule: eatPairs.induct;
      simp add: fold_keeps [where f = "\<lambda>gm. players (fst gm)"]
        fold_keeps [where f = "\<lambda>gm. pellets (fst gm)"]
        fold_keeps [where f = "\<lambda>gm. blackHoles (fst gm)"]
        fold_keeps [where f = "\<lambda>gm. eatenPellets (fst gm)"]
        fold_keeps [where f = "\<lambda>gm. deadBlackHoles (fst gm)"] pairStep_keeps)+


lemma spritesEatSprites_keeps:
  "players (spritesEatSprites d g) = players g"
  "pellets (spritesEatSprites d g) = pellets g"
  "blackHoles (spritesEatSprites d g) = blackHoles g"
  "eatenPellets (spritesEatSprites d g) = eatenPellets g"
  "deadBlackHoles (spritesEatSprites d g) = deadBlackHoles g"
  by (simp_all add: spritesEatSprites_def eatPairs_keeps)


lemma placePellet_keeps:
  "players (placePellet d ch i g) = players g"
  "blackHoles (placePellet d ch i g) = blackHoles g"
  "eatenPellets (placePellet d ch i g) = eatenPellets g"
  "eatenSprites (placePellet d ch i g) = eatenSprites g"
  "deadBlackHoles (placePellet d ch i g) = deadBlackHoles g"
  by (simp_all add: placePellet_def Let_def)

lemma placeNewPellets_keeps:
  "players (placeNewPellets d ch g) = players g"
  "blackHoles (placeNewPellets d ch g) = blackHoles g"
  "eatenPellets (placeNewPellets d ch g) = eatenPellets g"
  "eatenSprites (placeNewPellets d ch g) = eatenSprites g"
  "deadBlackHoles (placeNewPellets d ch g) = deadBlackHoles g"
  by (simp_all add: placeNewPellets_def placePellets_def fold_keeps placePellet_keeps)

lemmas tick_keeps =
  spawnBlackHole_keeps controlBlackHoles_keeps removeDeadBlackHoles_keeps
  removeEatenPellets_keeps removeEatenSprites_keeps controlPlayers_keeps
  spritesEatPellets_keeps spritesEatSprites_keeps placeNewPellets_keeps


section \<open>The staging arrays between ticks\<close>

text \<open>
  C9. If the three staging arrays are empty when \<^verbatim>\<open>run\<close> is called, they are empty when
  it returns, whatever the eligibility predicates answer during the tick: a running tick
  assigns \<^verbatim>\<open>[]\<close> to each after its flush and stages nothing afterwards, and a tick that is
  not running changes nothing.
\<close>

theorem staging_arrays_empty_after_run:
  "eatenPellets g = [] \<Longrightarrow> eatenSprites g = [] \<Longrightarrow> deadBlackHoles g = [] \<Longrightarrow>
     eatenPellets (run d m frameCount ch g) = []
     \<and> eatenSprites (run d m frameCount ch g) = []
     \<and> deadBlackHoles (run d m frameCount ch g) = []"
  by (simp add: run_def Let_def tick_keeps)

theorem staging_arrays_empty_after_run_witness:
  "eatenPellets drainGame = [] \<and> eatenSprites drainGame = [] \<and> deadBlackHoles drainGame = []
   \<and> eatenPellets (afterBlackHoles demoData demoMechanics 1 demoChance drainGame) = [1]
   \<and> eatenSprites (afterBlackHoles demoData demoMechanics 1 demoChance drainGame) = [0]
   \<and> deadBlackHoles (afterBlackHoles demoData demoMechanics 1 demoChance drainGame) = [0]
   \<and> eatenPellets (run demoData demoMechanics 1 demoChance drainGame) = []
   \<and> eatenSprites (run demoData demoMechanics 1 demoChance drainGame) = []
   \<and> deadBlackHoles (run demoData demoMechanics 1 demoChance drainGame) = []"
proof -
  have empty: "eatenPellets drainGame = []" "eatenSprites drainGame = []"
    "deadBlackHoles drainGame = []"
    by (simp_all add: drainGame_def newGame_def)
  have staged:
    "eatenPellets (afterBlackHoles demoData demoMechanics 1 demoChance drainGame) = [1]"
    "eatenSprites (afterBlackHoles demoData demoMechanics 1 demoChance drainGame) = [0]"
    "deadBlackHoles (afterBlackHoles demoData demoMechanics 1 demoChance drainGame) = [0]"
    by (simp_all add: demo_defs tick_defs)
  from staging_arrays_empty_after_run [OF empty, of demoData demoMechanics 1 demoChance]
    empty staged
  show ?thesis by simp
qed

section \<open>Sprites drained by a black hole\<close>






section \<open>Sprites eat sprites\<close>

lemma eatPairs_pairsOf:
  "eatPairs d ps gm = fold (\<lambda>(a, b). pairStep d a b) (pairsOf ps) gm"
  by (induction d ps gm rule: eatPairs.induct) (simp_all add: fold_map comp_def)

lemma in_pairsOf: "(a, b) \<in> set (pairsOf ps) \<Longrightarrow> a \<in> set ps \<and> b \<in> set ps"
  by (induction ps) auto

lemma count_list_distinct: "distinct ps \<Longrightarrow> count_list ps a = (if a \<in> set ps then 1 else 0)"
  by (induction ps) auto

lemma count_list_Pair: "count_list (map (Pair p) ps) (a, b) = (if a = p then count_list ps b else 0)"
  by (induction ps) auto

lemma count_pairsOf_outside:
  "a \<notin> set ps \<or> b \<notin> set ps \<Longrightarrow> count_list (pairsOf ps) (a, b) = 0"
  by (auto simp: count_list_0_iff dest: in_pairsOf)

lemma pair_visited_once:
  "distinct ps \<Longrightarrow> a \<noteq> b \<Longrightarrow>
     count_list (pairsOf ps) (a, b) + count_list (pairsOf ps) (b, a) =
       (if a \<in> set ps \<and> b \<in> set ps then 1 else 0)"
proof (induction ps)
  case Nil
  show ?case by simp
next
  case (Cons p ps)
  then have IH: "count_list (pairsOf ps) (a, b) + count_list (pairsOf ps) (b, a) =
       (if a \<in> set ps \<and> b \<in> set ps then 1 else 0)" and p: "p \<notin> set ps" and d: "distinct ps"
    by simp_all
  consider "a = p" | "b = p" | "a \<noteq> p" "b \<noteq> p" by blast
  then show ?case
  proof cases
    case 1
    with p Cons.prems(2) show ?thesis
      by (simp add: count_list_Pair count_list_distinct [OF d] count_pairsOf_outside)
  next
    case 2
    with p Cons.prems(2) show ?thesis
      by (simp add: count_list_Pair count_list_distinct [OF d] count_pairsOf_outside)
  next
    case 3
    with IH show ?thesis by (simp add: count_list_Pair)
  qed
qed

lemma pairStep_meals:
  "mealsBetween a b (snd (pairStep d x y gm)) \<le>
     mealsBetween a b (snd gm) + (if (x, y) = (a, b) \<or> (x, y) = (b, a) then 1 else 0)"
  by (cases gm) (auto simp: mealsBetween_def)

lemma fold_pairStep_meals:
  "mealsBetween a b (snd (fold (\<lambda>(x, y). pairStep d x y) qs gm)) \<le>
     mealsBetween a b (snd gm) + count_list qs (a, b) + count_list qs (b, a)"
proof (induction qs arbitrary: gm)
  case Nil
  show ?case by simp
next
  case (Cons q qs)
  obtain x y where q: "q = (x, y)" by (cases q)
  define hit :: nat where "hit = (if (x, y) = (a, b) \<or> (x, y) = (b, a) then 1 else 0)"
  have rest: "mealsBetween a b (snd (fold (\<lambda>(x, y). pairStep d x y) qs (pairStep d x y gm))) \<le>
     mealsBetween a b (snd (pairStep d x y gm)) + count_list qs (a, b) + count_list qs (b, a)"
    by (rule Cons.IH)
  have first: "mealsBetween a b (snd (pairStep d x y gm)) \<le> mealsBetween a b (snd gm) + hit"
    unfolding hit_def by (rule pairStep_meals)
  have counted: "hit + count_list qs (a, b) + count_list qs (b, a)
      \<le> count_list (q # qs) (a, b) + count_list (q # qs) (b, a)"
    unfolding hit_def q by (simp only: count_list.simps prod.inject split: if_split) linarith
  have unroll: "fold (\<lambda>(x, y). pairStep d x y) (q # qs) gm =
      fold (\<lambda>(x, y). pairStep d x y) qs (pairStep d x y gm)"
    unfolding q by simp
  show ?case unfolding unroll using rest first counted by linarith
qed





section \<open>The flush of the eaten sprites\<close>
















section \<open>One meal per pair, and the victim's value\<close>

text \<open>
  C6 (as amended). The step in which sprites eat sprites visits the pairs of positions \<open>i < j\<close> of
  \<^verbatim>\<open>players\<close>, one after the other, and no two sprites have more meals between them than
  the number of visits of the two. With no sprite twice in \<^verbatim>\<open>players\<close>, each unordered
  pair of distinct live sprites is visited exactly once, so at most one of "\<open>a\<close> eats \<open>b\<close>"
  and "\<open>b\<close> eats \<open>a\<close>" occurs in the tick. Where \<^verbatim>\<open>canEatSprite( a, b )\<close> holds at
  the visit of \<open>(a, b)\<close>, it is \<open>a\<close> that eats \<open>b\<close>, whatever the predicate says of the
  other direction.
\<close>

theorem one_meal_per_pair:
  "(spritesEatSprites d g, mealsOfTick d g) =
      fold (\<lambda>(x, y). pairStep d x y) (pairsOf (players g)) (g, [])
   \<and> mealsBetween a b (mealsOfTick d g) \<le>
        count_list (pairsOf (players g)) (a, b) + count_list (pairsOf (players g)) (b, a)
   \<and> (distinct (players g) \<and> a \<noteq> b \<longrightarrow>
        count_list (pairsOf (players g)) (a, b) + count_list (pairsOf (players g)) (b, a) =
          (if a \<in> set (players g) \<and> b \<in> set (players g) then 1 else 0)
        \<and> mealsBetween a b (mealsOfTick d g) \<le> 1)
   \<and> (canEatSprite d (spriteObj g' a) (spriteObj g' b) \<longrightarrow>
        snd (pairStep d a b (g', ms)) = ms @ [(a, b)])"
proof -
  have bound: "mealsBetween a b (mealsOfTick d g) \<le>
        count_list (pairsOf (players g)) (a, b) + count_list (pairsOf (players g)) (b, a)"
    using fold_pairStep_meals [of a b d "pairsOf (players g)" "(g, [])"]
    by (simp add: mealsOfTick_def eatPairs_pairsOf mealsBetween_def)
  have once: "count_list (pairsOf (players g)) (a, b) + count_list (pairsOf (players g)) (b, a) =
          (if a \<in> set (players g) \<and> b \<in> set (players g) then 1 else 0)
        \<and> mealsBetween a b (mealsOfTick d g) \<le> 1"
    if "distinct (players g)" and "a \<noteq> b"
  proof -
    have visits:
      "count_list (pairsOf (players g)) (a, b) + count_list (pairsOf (players g)) (b, a) =
         (if a \<in> set (players g) \<and> b \<in> set (players g) then 1 else 0)"
      using that by (rule pair_visited_once)
    with bound have "mealsBetween a b (mealsOfTick d g) \<le> 1"
      by (simp split: if_splits)
    with visits show ?thesis by blast
  qed
  have scan: "(spritesEatSprites d g, mealsOfTick d g) =
      fold (\<lambda>(x, y). pairStep d x y) (pairsOf (players g)) (g, [])"
    by (simp add: spritesEatSprites_def mealsOfTick_def eatPairs_pairsOf)
  have first: "canEatSprite d (spriteObj g' a) (spriteObj g' b) \<longrightarrow>
        snd (pairStep d a b (g', ms)) = ms @ [(a, b)]"
    by simp
  from scan bound once first show ?thesis by blast
qed

theorem one_meal_per_pair_witness:
  "distinct (players trioGame) \<and> (0::nat) \<noteq> 1
   \<and> pairsOf (players trioGame) = [(0, 1), (0, 2), (1, 2)]
   \<and> canEatSprite greedyData (spriteObj trioGame 0) (spriteObj trioGame 1)
   \<and> canEatSprite greedyData (spriteObj trioGame 1) (spriteObj trioGame 0)
   \<and> mealsOfTick greedyData trioGame = [(0, 1), (0, 2), (1, 2)]
   \<and> mealsBetween 0 1 (mealsOfTick greedyData trioGame) \<le> 1
   \<and> snd (pairStep greedyData 0 1 (trioGame, [])) = [(0, 1)]"
proof -
  have trio: "distinct (players trioGame)" by (simp add: trioGame_def newGame_def)
  have apart: "(0::nat) \<noteq> 1" by simp
  have visited: "pairsOf (players trioGame) = [(0, 1), (0, 2), (1, 2)]"
    by (simp add: trioGame_def newGame_def)
  have greedy: "canEatSprite greedyData (spriteObj trioGame 0) (spriteObj trioGame 1)"
    "canEatSprite greedyData (spriteObj trioGame 1) (spriteObj trioGame 0)"
    by (simp_all add: greedyData_def)
  have meals: "mealsOfTick greedyData trioGame = [(0, 1), (0, 2), (1, 2)]"
    by (simp add: demo_defs tick_defs)
  from one_meal_per_pair [of greedyData trioGame 0 1 trioGame "[]"]
    trio apart visited greedy meals
  show ?thesis by simp
qed

text \<open>
  C6 fails as stated: \<^verbatim>\<open>addPlayer\<close> accepts a sprite that is a player already. In
  \<open>twiceGame\<close> player \<open>0\<close> stands at positions 0 and 2, so the sprites \<open>0\<close> and \<open>1\<close>
  meet twice; with sprites that eat whatever they meet, \<open>0\<close> eats \<open>1\<close> at the first visit
  and \<open>1\<close> eats \<open>0\<close> at the second.
\<close>

theorem pair_met_twice_counterexample:
  "players twiceGame = [0, 1, 0]
   \<and> pairsOf (players twiceGame) = [(0, 1), (0, 0), (1, 0)]
   \<and> mealsOfTick greedyData twiceGame = [(0, 1), (0, 0), (1, 0)]
   \<and> mealsBetween 0 1 (mealsOfTick greedyData twiceGame) = 2"
  by (simp add: demo_defs tick_defs mealsBetween_def)

text \<open>
  C5 (as amended). When sprite \<open>a\<close> eats sprite \<open>b\<close> in the step in which sprites eat
  sprites, in either branch, \<^verbatim>\<open>eatOtherSprite\<close> is called on the game in which the victim's
  \<^verbatim>\<open>value\<close> has just been set to the configured value function of the victim's field
  \<^verbatim>\<open>size\<close>, as it is at that moment; the eater grows by that value.
\<close>

theorem victim_value_from_size:
  "(canEatSprite d (spriteObj g a) (spriteObj g b) \<longrightarrow>
      pairStep d a b (g, ms) = (eatOtherSprite a b (setValue d b g), ms @ [(a, b)])
      \<and> value_s (spriteObj (setValue d b g) b) = sprites_value d (size_s (spriteObj g b))
      \<and> value_s (spriteObj (fst (pairStep d a b (g, ms))) b) =
          sprites_value d (size_s (spriteObj g b))
      \<and> actualSize (spriteObj (fst (pairStep d a b (g, ms))) a) =
          actualSize (spriteObj g a) + sprites_value d (size_s (spriteObj g b)))
   \<and> (\<not> canEatSprite d (spriteObj g a) (spriteObj g b)
        \<and> canEatSprite d (spriteObj g b) (spriteObj g a) \<longrightarrow>
      pairStep d a b (g, ms) = (eatOtherSprite b a (setValue d a g), ms @ [(b, a)])
      \<and> value_s (spriteObj (setValue d a g) a) = sprites_value d (size_s (spriteObj g a))
      \<and> value_s (spriteObj (fst (pairStep d a b (g, ms))) a) =
          sprites_value d (size_s (spriteObj g a))
      \<and> actualSize (spriteObj (fst (pairStep d a b (g, ms))) b) =
          actualSize (spriteObj g b) + sprites_value d (size_s (spriteObj g a)))"
  by (simp add: setValue_def eatOtherSprite_def)

theorem victim_value_from_size_witness:
  "canEatSprite demoData (spriteObj duelGame 0) (spriteObj duelGame 1)
   \<and> size_s (spriteObj duelGame 1) = 20
   \<and> value_s (spriteObj (fst (pairStep demoData 0 1 (duelGame, []))) 1) = 20
   \<and> actualSize (spriteObj (fst (pairStep demoData 0 1 (duelGame, []))) 0) = 50
   \<and> \<not> canEatSprite demoData (spriteObj duelGame 1) (spriteObj duelGame 0)
   \<and> value_s (spriteObj (fst (pairStep demoData 1 0 (duelGame, []))) 1) = 20
   \<and> snd (pairStep demoData 1 0 (duelGame, [])) = [(0, 1)]"
proof -
  have bigger: "canEatSprite demoData (spriteObj duelGame 0) (spriteObj duelGame 1)"
    "\<not> canEatSprite demoData (spriteObj duelGame 1) (spriteObj duelGame 0)"
    by (simp_all add: demo_defs)
  have fields: "size_s (spriteObj duelGame 1) = 20" "actualSize (spriteObj duelGame 0) = 30"
    "sprites_value demoData = (\<lambda>n. n)"
    by (simp_all add: demo_defs)
  from victim_value_from_size [of demoData duelGame 0 1 "[]"]
       victim_value_from_size [of demoData duelGame 1 0 "[]"] bigger fields
  show ?thesis by simp
qed

text \<open>
  C5 fails as stated: player \<open>1\<close> of \<open>duelGame\<close> has \<^verbatim>\<open>size\<close> 20 and \<^verbatim>\<open>actualSize\<close>
  50; when player \<open>0\<close> eats it, its \<^verbatim>\<open>value\<close> becomes the value function of 20, not of 50.
\<close>

theorem victim_value_not_from_actualSize_counterexample:
  "canEatSprite demoData (spriteObj duelGame 0) (spriteObj duelGame 1)
   \<and> snd (pairStep demoData 0 1 (duelGame, [])) = [(0, 1)]
   \<and> actualSize (spriteObj duelGame 1) = 50
   \<and> sprites_value demoData (actualSize (spriteObj duelGame 1)) = 50
   \<and> value_s (spriteObj (setValue demoData 1 duelGame) 1) = 20
   \<and> value_s (spriteObj (fst (pairStep demoData 0 1 (duelGame, []))) 1) = 20"
  by (simp add: demo_defs tick_defs)

section \<open>Pellets\<close>













section \<open>Black holes\<close>

lemma one_dead_removes_first:
  "deadBlackHoles g = [h] \<Longrightarrow> blackHoles (removeDeadBlackHoles g) = tl (blackHoles g)"
  by (cases "blackHoles g") (simp_all add: removeDeadBlackHoles_def splice1_def)

text \<open>
  C1 fails on the code. In \<open>hazardGame\<close> hole \<open>0\<close> has five ticks left and hole \<open>1\<close> has
  one. The scan stages hole \<open>1\<close> as dead; the flush then deletes at the index hole \<open>1\<close> has
  in \<^verbatim>\<open>deadBlackHoles\<close>, which is \<open>0\<close>: the live hole \<open>0\<close> is removed and the dead hole
  \<open>1\<close> stays.
\<close>

theorem dead_hole_flush_removes_live_hole:
  "blackHoles hazardGame = [0, 1]
   \<and> deadBlackHoles (controlBlackHoles demoData demoMechanics hazardGame) = [1]
   \<and> indexOf 1 (deadBlackHoles (controlBlackHoles demoData demoMechanics hazardGame)) = 0
   \<and> indexOf 1 (blackHoles (controlBlackHoles demoData demoMechanics hazardGame)) = 1
   \<and> blackHoles (removeDeadBlackHoles (controlBlackHoles demoData demoMechanics hazardGame))
       = [1]"
  by (simp add: demo_defs tick_defs)

text \<open>
  C4 fails on the code. \<open>countingGame\<close> has \<^verbatim>\<open>framesElapsed\<close> at 4. With an interval of
  2 and the global \<^verbatim>\<open>frameCount\<close> at 5 no black hole is spawned, although the game's own
  counter is a multiple of the interval; with an interval of 3 and \<^verbatim>\<open>frameCount\<close> at 3 one
  is spawned, although the game's own counter is not.
\<close>

theorem spawn_follows_global_frameCount:
  "framesElapsed countingGame = 4
   \<and> remainderIsZero (framesElapsed countingGame) 2
   \<and> blackHoles (spawnBlackHole demoData 5 demoChance 2 countingGame) = blackHoles countingGame
   \<and> \<not> remainderIsZero (framesElapsed countingGame) 3
   \<and> blackHoles (spawnBlackHole demoData 3 demoChance 3 countingGame)
       = blackHoles countingGame @ [1]"
  by (simp add: demo_defs tick_defs)

end
